theory Spec2Isabelle
  imports Main "HOL-Library.Sublist"
begin

section \<open>Values shared by the modules\<close>

text \<open>
  A JavaScript string is modelled as a \<open>string\<close>; a character stands for the code unit
  of the same number, so the model covers strings over the code points below 256.

  A thrown value is described by what the handlers of this program read from it: the
  \<open>name\<close> property (\<open>None\<close> when the value is not an object with a \<open>name\<close>) and the
  \<open>message\<close> property (\<open>None\<close> when there is no message of type string).
  \<open>new Error(m)\<close> is \<open>Error m\<close> below.
\<close>

datatype thrown = Thrown (thrown_name: "string option") (thrown_message: "string option")

definition Error :: "string \<Rightarrow> thrown" where
  "Error m = Thrown (Some ''Error'') (Some m)"

text \<open>
  \<open>a || d\<close> on an optional string: the default \<open>d\<close> replaces an absent (undefined) value
  and also the empty string, both being falsy.
\<close>

fun or_default :: "string option \<Rightarrow> string \<Rightarrow> string" where
  "or_default None d = d"
| "or_default (Some m) d = (if m = [] then d else m)"

text \<open>
  The decimal rendering of a non-negative integer, as a template literal prints an
  integral number.
\<close>

definition digit_char :: "nat \<Rightarrow> char" where
  "digit_char d = char_of (48 + d)"

fun Number_toString :: "nat \<Rightarrow> string" where
  "Number_toString n =
     (if n < 10 then [digit_char n]
      else Number_toString (n div 10) @ [digit_char (n mod 10)])"

declare Number_toString.simps [simp del]

section \<open>types.ts\<close>

datatype 'n size_field = SizeArray "'n list" | SizeNumber 'n

record 'n image_info =
  img_format :: string
  img_size :: "'n size_field"

record 'n media_info =
  med_type :: string
  med_format :: string
  med_size :: "'n size_field"

text \<open>
  \<open>ApiResponse\<close>: the parsed body of a backend response. \<open>'n\<close> is the type of numbers.
  The fields carry the prefix \<open>resp_\<close> to keep them apart from those of \<open>AnalysisResult\<close>.
\<close>

record 'n ApiResponse =
  resp_success :: bool
  resp_label :: string
  resp_confidence :: 'n
  resp_timestamp :: string
  resp_image_info :: "'n image_info option"
  resp_media_info :: "'n media_info option"
  resp_error :: "string option"
  resp_message :: "string option"

record 'n AnalysisResult =
  success :: bool
  label :: string
  confidence :: 'n
  timestamp :: string
  image_info :: "'n image_info option"
  media_info :: "'n media_info option"

section \<open>utils/api.ts\<close>

definition API_BASE_URL :: string where
  "API_BASE_URL = ''http://localhost:5000''"

datatype payload =
  ImagePayload (p_image: string) (p_timestamp: string)
| MediaPayload (p_media: string) (p_type: string) (p_timestamp: string)

record request =
  url :: string
  http_method :: string
  content_type :: string
  body :: payload

text \<open>
  A response of \<open>fetch\<close>: its status and what \<open>response.json()\<close> yields when the body is
  read (a rejection, or the parsed body). \<open>ok\<close> is the attribute of the Fetch standard:
  the status is in the range 200 to 299.
\<close>

record 'n response =
  status :: nat
  json :: "thrown + 'n ApiResponse"

definition ok :: "'n response \<Rightarrow> bool" where
  "ok r = (200 \<le> status r \<and> status r \<le> 299)"

text \<open>The input and output actions of a call, in the order they happen.\<close>

datatype io = Fetch request | ReadBody

text \<open>
  \<open>analyzeImage now fetch imageData\<close>: \<open>now\<close> is the value of
  \<open>new Date().toISOString()\<close>, \<open>fetch\<close> the outcome of the request (a rejection or
  a response). The result is what the promise settles to (\<open>Inl\<close> a rejection) with the
  actions performed.
\<close>

definition analyzeImage ::
  "string \<Rightarrow> (request \<Rightarrow> thrown + 'n response) \<Rightarrow> string \<Rightarrow> (thrown + 'n AnalysisResult) \<times> io list" where
  "analyzeImage now fetch imageData =
     (let req = \<lparr>url = API_BASE_URL @ ''/analyze'', http_method = ''POST'',
                 content_type = ''application/json'',
                 body = ImagePayload imageData now\<rparr>
      in case fetch req of
           Inl e \<Rightarrow> (Inl e, [Fetch req])
         | Inr response \<Rightarrow>
             if \<not> ok response
             then (Inl (Error (''Backend error: '' @ Number_toString (status response))), [Fetch req])
             else (case json response of
                     Inl e \<Rightarrow> (Inl e, [Fetch req, ReadBody])
                   | Inr data \<Rightarrow>
                       if \<not> resp_success data
                       then (Inl (Error (or_default (resp_message data) ''Analysis failed'')),
                             [Fetch req, ReadBody])
                       else (Inr \<lparr>success = resp_success data,
                                  label = resp_label data,
                                  confidence = resp_confidence data,
                                  timestamp = resp_timestamp data,
                                  image_info = resp_image_info data,
                                  media_info = None\<rparr>,
                             [Fetch req, ReadBody])))"

definition verifyMedia ::
  "string \<Rightarrow> (request \<Rightarrow> thrown + 'n response) \<Rightarrow> string \<Rightarrow> string \<Rightarrow> (thrown + 'n AnalysisResult) \<times> io list" where
  "verifyMedia now fetch mediaData mimeType =
     (let req = \<lparr>url = API_BASE_URL @ ''/verify-media'', http_method = ''POST'',
                 content_type = ''application/json'',
                 body = MediaPayload mediaData mimeType now\<rparr>
      in case fetch req of
           Inl e \<Rightarrow> (Inl e, [Fetch req])
         | Inr response \<Rightarrow>
             if \<not> ok response
             then (Inl (Error (''Backend error: '' @ Number_toString (status response))), [Fetch req])
             else (case json response of
                     Inl e \<Rightarrow> (Inl e, [Fetch req, ReadBody])
                   | Inr data \<Rightarrow>
                       if \<not> resp_success data
                       then (Inl (Error (or_default (resp_message data) ''Verification failed'')),
                             [Fetch req, ReadBody])
                       else (Inr \<lparr>success = resp_success data,
                                  label = resp_label data,
                                  confidence = resp_confidence data,
                                  timestamp = resp_timestamp data,
                                  image_info = None,
                                  media_info = resp_media_info data\<rparr>,
                             [Fetch req, ReadBody])))"

section \<open>components/ResultCard.tsx\<close>

text \<open>
  \<open>toLowerCase\<close> on the code points below 256: the capital letters A to Z and the
  capital letters of the Latin-1 block (192 to 222, without the multiplication sign 215)
  move up by 32; every other character is kept.
\<close>

definition toLowerChar :: "char \<Rightarrow> char" where
  "toLowerChar c =
     (let n = (of_char c :: nat)
      in if (65 \<le> n \<and> n \<le> 90) \<or> (192 \<le> n \<and> n \<le> 222 \<and> n \<noteq> 215)
         then char_of (n + 32) else c)"

definition toLowerCase :: "string \<Rightarrow> string" where
  "toLowerCase s = map toLowerChar s"

text \<open>
  The icons are emoji outside the modelled character range; each is named:
  \<open>CheckMark\<close> is U+2705, \<open>CrossMark\<close> U+274C, \<open>WarningSign\<close> U+26A0 U+FE0F and
  \<open>QuestionMark\<close> U+2753.
\<close>

datatype icon = CheckMark | CrossMark | WarningSign | QuestionMark

record display =
  icon :: icon
  text_of :: string
  color :: string
  bgColor :: string
  borderColor :: string

definition getResultDisplay :: "'n AnalysisResult \<Rightarrow> display" where
  "getResultDisplay result =
     (let l = toLowerCase (label result)
      in if l = ''real'' then
           \<lparr>icon = CheckMark, text_of = ''Real'', color = ''text-green-400'',
            bgColor = ''bg-green-900/20'', borderColor = ''border-green-500/30''\<rparr>
         else if l = ''fake'' then
           \<lparr>icon = CrossMark, text_of = ''Fake'', color = ''text-red-400'',
            bgColor = ''bg-red-900/20'', borderColor = ''border-red-500/30''\<rparr>
         else if l = ''suspicious'' then
           \<lparr>icon = WarningSign, text_of = ''Suspicious'', color = ''text-yellow-400'',
            bgColor = ''bg-yellow-900/20'', borderColor = ''border-yellow-500/30''\<rparr>
         else
           \<lparr>icon = QuestionMark, text_of = ''Unknown'', color = ''text-gray-400'',
            bgColor = ''bg-gray-900/20'', borderColor = ''border-gray-500/30''\<rparr>)"

text \<open>The colour class of the progress bar, the conditional inside the bar's class name.\<close>

definition barColor :: "'n AnalysisResult \<Rightarrow> string" where
  "barColor result =
     (if toLowerCase (label result) = ''real'' then ''bg-green-500''
      else if toLowerCase (label result) = ''fake'' then ''bg-red-500''
      else ''bg-yellow-500'')"

text \<open>
  The size of an image: a two-element template over an array (an index past the end
  reads \<open>undefined\<close>), or the number itself.
\<close>

datatype size_view = Dimensions string string | Plain string

definition element_text :: "('n \<Rightarrow> string) \<Rightarrow> 'n list \<Rightarrow> nat \<Rightarrow> string" where
  "element_text S xs i = (if i < length xs then S (xs ! i) else ''undefined'')"

fun size_text :: "('n \<Rightarrow> string) \<Rightarrow> 'n size_field \<Rightarrow> size_view" where
  "size_text S (SizeArray xs) = Dimensions (element_text S xs 0) (element_text S xs 1)"
| "size_text S (SizeNumber n) = Plain (S n)"

record info_view =
  image_line :: "(string \<times> size_view) option"
  media_line :: "(string \<times> string) option"

text \<open>
  What the card renders. \<open>S\<close> is the conversion of a number to the string that a
  template literal and a text node show.
\<close>

record card_view =
  container_class :: string
  icon_shown :: icon
  heading_class :: string
  heading_text :: string
  confidence_line :: string
  bar_class :: string
  bar_width :: string
  additional_info :: "info_view option"

definition ResultCard :: "('n \<Rightarrow> string) \<Rightarrow> 'n AnalysisResult \<Rightarrow> card_view" where
  "ResultCard S result =
     (let display = getResultDisplay result
      in \<lparr>container_class =
             ''fade-in-up border rounded-lg p-4 '' @ bgColor display @ '' '' @ borderColor display,
          icon_shown = icon display,
          heading_class = ''text-lg font-semibold mb-1 '' @ color display,
          heading_text = text_of display,
          confidence_line = ''Confidence: '' @ S (confidence result) @ ''%'',
          bar_class = ''h-2 rounded-full transition-all duration-500 '' @ barColor result,
          bar_width = S (confidence result) @ ''%'',
          additional_info =
            (if image_info result \<noteq> None \<or> media_info result \<noteq> None
             then Some \<lparr>image_line =
                          map_option (\<lambda>i. (img_format i, size_text S (img_size i))) (image_info result),
                        media_line =
                          map_option (\<lambda>m. (med_type m, med_format m)) (media_info result)\<rparr>
             else None)\<rparr>)"

text \<open>
  Two labels differ only in letter casing: they have the same length and, position by
  position, the same letter up to its case.
\<close>

definition differ_only_in_case :: "string \<Rightarrow> string \<Rightarrow> bool" where
  "differ_only_in_case a b = list_all2 (\<lambda>x y. toLowerChar x = toLowerChar y) a b"

section \<open>components/WebcamPreview.tsx\<close>

subsection \<open>The browser and the component state\<close>

text \<open>
  The extension interface as \<open>getChromeAPI\<close> finds it. A runtime object has an optional
  \<open>id\<close>; its \<open>getURL\<close> and \<open>onMessage\<close> members are not optional in the declared type and
  are present whenever the runtime object is. The \<open>tabs\<close> object answers \<open>query\<close> with a
  rejection or the list of tabs (each with an optional id), and \<open>sendMessage\<close> with a
  rejection or the reply of the content script (\<open>None\<close> for no reply object; a field
  missing from a reply reads as false).
\<close>

record chrome_runtime =
  runtime_id :: "string option"

record relay_reply =
  reply_success :: bool
  reply_granted :: bool

record chrome_tabs =
  tabs_query :: "thrown + nat option list"
  tabs_sendMessage :: "nat \<Rightarrow> string \<Rightarrow> thrown + relay_reply option"

record chrome_api =
  runtime :: "chrome_runtime option"
  tabs :: "chrome_tabs option"

datatype permission = Unknown | Requesting | Granted | Denied

datatype ready_state = Live | Ended

text \<open>A media stream is the list of its tracks; the state of every track is in a store.\<close>

type_synonym track_id = nat
type_synonym stream = "track_id list"

record video_element =
  srcObject :: "stream option"
  paused :: bool

datatype video_event = LoadedMetadata | ErrorEvent

text \<open>
  The surroundings of one call: the extension interface, whether
  \<open>navigator.mediaDevices.getUserMedia\<close> exists, what it settles to, the events the video
  element fires after the stream is bound (with the time of each in milliseconds since
  then, in the order of delivery), and what \<open>play()\<close> settles to (\<open>None\<close>: it resolves).
\<close>

record env =
  chrome :: "chrome_api option"
  has_getUserMedia :: bool
  getUserMedia :: "thrown + stream"
  video_events :: "(nat \<times> video_event) list"
  play :: "thrown option"

text \<open>
  The state of the component: its four state variables, the stream reference, the video
  element behind \<open>videoRef\<close> (\<open>None\<close>: the reference is empty), the store of track states,
  and the status line that \<open>onStatusUpdate\<close> sets in the parent.
\<close>

record state =
  isCameraActive :: bool
  cameraError :: "string option"
  isRequestingCamera :: bool
  permissionStatus :: permission
  streamRef :: "stream option"
  videoRef :: "video_element option"
  tracks :: "track_id \<Rightarrow> ready_state"
  app_status :: string

definition onStatusUpdate :: "string \<Rightarrow> state \<Rightarrow> state" where
  "onStatusUpdate m s = s\<lparr>app_status := m\<rparr>"

definition isExtension :: "env \<Rightarrow> bool" where
  "isExtension e =
     (case chrome e of None \<Rightarrow> False
      | Some c \<Rightarrow> (case runtime c of None \<Rightarrow> False | Some r \<Rightarrow> runtime_id r \<noteq> None))"

definition chrome_tabs_of :: "env \<Rightarrow> chrome_tabs option" where
  "chrome_tabs_of e = (case chrome e of None \<Rightarrow> None | Some c \<Rightarrow> tabs c)"

subsection \<open>The relay\<close>

text \<open>\<open>tabs[0]\<close> with a truthy \<open>id\<close>: the list is not empty, the id is there and is not 0.\<close>

fun first_tab_id :: "nat option list \<Rightarrow> nat option" where
  "first_tab_id [] = None"
| "first_tab_id (None # _) = None"
| "first_tab_id (Some i # _) = (if i = 0 then None else Some i)"

text \<open>The body of the \<open>try\<close> block of \<open>requestPermissionViaContentScript\<close>.\<close>

definition requestPermission_try :: "chrome_tabs \<Rightarrow> thrown + bool" where
  "requestPermission_try t =
     (case tabs_query t of
        Inl e \<Rightarrow> Inl e
      | Inr ts \<Rightarrow>
          (case first_tab_id ts of
             None \<Rightarrow> Inl (Error ''No active tab found'')
           | Some i \<Rightarrow>
               (case tabs_sendMessage t i ''requestCameraPermission'' of
                  Inl e \<Rightarrow> Inl e
                | Inr response \<Rightarrow>
                    Inr (case response of None \<Rightarrow> False | Some r \<Rightarrow> reply_success r))))"

definition requestPermissionViaContentScript :: "env \<Rightarrow> thrown + bool" where
  "requestPermissionViaContentScript e =
     (if \<not> isExtension e then Inr False
      else case chrome_tabs_of e of
             None \<Rightarrow> Inr False
           | Some t \<Rightarrow>
               (case requestPermission_try t of
                  Inl error \<Rightarrow> Inr False
                | Inr b \<Rightarrow> Inr b))"

text \<open>The body of the \<open>try\<close> block of \<open>checkPermissionStatus\<close>.\<close>

definition checkPermission_try :: "chrome_tabs \<Rightarrow> thrown + bool" where
  "checkPermission_try t =
     (case tabs_query t of
        Inl e \<Rightarrow> Inl e
      | Inr ts \<Rightarrow>
          (case first_tab_id ts of
             None \<Rightarrow> Inr False
           | Some i \<Rightarrow>
               (case tabs_sendMessage t i ''checkCameraPermission'' of
                  Inl e \<Rightarrow> Inl e
                | Inr response \<Rightarrow>
                    Inr (case response of None \<Rightarrow> False | Some r \<Rightarrow> reply_granted r))))"

definition checkPermissionStatus :: "env \<Rightarrow> thrown + bool" where
  "checkPermissionStatus e =
     (if \<not> isExtension e then Inr False
      else case chrome_tabs_of e of
             None \<Rightarrow> Inr False
           | Some t \<Rightarrow>
               (case checkPermission_try t of
                  Inl error \<Rightarrow> Inr False
                | Inr b \<Rightarrow> Inr b))"

text \<open>
  \<open>openPermissionPage\<close>: the address of the tab it opens, if it opens one. \<open>getURL\<close> puts
  the path under the origin of the extension.
\<close>

definition getURL :: "string \<Rightarrow> string \<Rightarrow> string" where
  "getURL rid path = ''chrome-extension://'' @ rid @ ''/'' @ path"

definition openPermissionPage :: "env \<Rightarrow> string option" where
  "openPermissionPage e =
     (case chrome e of None \<Rightarrow> None
      | Some c \<Rightarrow>
          (case runtime c of None \<Rightarrow> None
           | Some r \<Rightarrow>
               (case runtime_id r of None \<Rightarrow> None
                | Some rid \<Rightarrow>
                    (case tabs c of None \<Rightarrow> None
                     | Some t \<Rightarrow> Some (getURL rid ''permission.html'')))))"

subsection \<open>Waiting for the video metadata\<close>

text \<open>
  The promise that \<open>startCamera\<close> awaits after binding the stream. Its state is the state
  of the promise and the two listeners on the video element. Settling a promise that is
  already settled has no effect.
\<close>

datatype promise_state = Pending | Resolved | Rejected thrown

datatype wait_event = VideoEvent video_event | TimerFired

record wait_state =
  promise :: promise_state
  loadedmetadata_listener :: bool
  error_listener :: bool

definition resolve :: "wait_state \<Rightarrow> wait_state" where
  "resolve w = (if promise w = Pending then w\<lparr>promise := Resolved\<rparr> else w)"

definition reject :: "thrown \<Rightarrow> wait_state \<Rightarrow> wait_state" where
  "reject e w = (if promise w = Pending then w\<lparr>promise := Rejected e\<rparr> else w)"

definition removeListeners :: "wait_state \<Rightarrow> wait_state" where
  "removeListeners w = w\<lparr>loadedmetadata_listener := False, error_listener := False\<rparr>"

definition onLoadedMetadata :: "wait_state \<Rightarrow> wait_state" where
  "onLoadedMetadata w = resolve (removeListeners w)"

definition onError :: "wait_state \<Rightarrow> wait_state" where
  "onError w = reject (Error ''Video loading failed'') (removeListeners w)"

definition onTimeout :: "wait_state \<Rightarrow> wait_state" where
  "onTimeout w = reject (Error ''Video loading timeout'') (removeListeners w)"

text \<open>
  The executor of the promise: without a video element it rejects at once; otherwise it
  adds both listeners and sets one timer, returned as the delay in milliseconds.
\<close>

definition metadata_executor :: "video_element option \<Rightarrow> wait_state \<times> nat option" where
  "metadata_executor v =
     (case v of
        None \<Rightarrow>
          (reject (Error ''Video element not available'')
             \<lparr>promise = Pending, loadedmetadata_listener = False, error_listener = False\<rparr>,
           None)
      | Some video \<Rightarrow>
          (\<lparr>promise = Pending, loadedmetadata_listener = True, error_listener = True\<rparr>,
           Some 10000))"

text \<open>An event reaches its callback; a video event only while its listener is attached.\<close>

fun deliver :: "wait_event \<Rightarrow> wait_state \<Rightarrow> wait_state" where
  "deliver (VideoEvent LoadedMetadata) w =
     (if loadedmetadata_listener w then onLoadedMetadata w else w)"
| "deliver (VideoEvent ErrorEvent) w = (if error_listener w then onError w else w)"
| "deliver TimerFired w = onTimeout w"

text \<open>
  The event loop runs the callbacks in the order of time: the timer set for the delay
  \<open>d\<close> fires after the video events that come no later than \<open>d\<close> and before the others.
\<close>

fun enqueue_timer :: "nat \<Rightarrow> (nat \<times> video_event) list \<Rightarrow> (nat \<times> wait_event) list" where
  "enqueue_timer d [] = [(d, TimerFired)]"
| "enqueue_timer d ((t, ev) # evs) =
     (if t \<le> d then (t, VideoEvent ev) # enqueue_timer d evs
      else (d, TimerFired) # (t, VideoEvent ev) # map (\<lambda>(t', ev'). (t', VideoEvent ev')) evs)"

definition event_queue :: "nat option \<Rightarrow> (nat \<times> video_event) list \<Rightarrow> (nat \<times> wait_event) list" where
  "event_queue timer evs =
     (case timer of
        None \<Rightarrow> map (\<lambda>(t, ev). (t, VideoEvent ev)) evs
      | Some d \<Rightarrow> enqueue_timer d evs)"

text \<open>
  Running the queue until the promise settles gives the time and the outcome; \<open>None\<close>
  when the queue ends with the promise still pending: the wait never returns.
\<close>

fun run_until_settled :: "(nat \<times> wait_event) list \<Rightarrow> wait_state \<Rightarrow> (nat \<times> promise_state) option" where
  "run_until_settled [] w = None"
| "run_until_settled ((t, ev) # q) w =
     (let w' = deliver ev w
      in if promise w' \<noteq> Pending then Some (t, promise w') else run_until_settled q w')"

definition waitForMetadata ::
  "video_element option \<Rightarrow> (nat \<times> video_event) list \<Rightarrow> (nat \<times> promise_state) option" where
  "waitForMetadata v evs =
     (let (w, timer) = metadata_executor v
      in if promise w \<noteq> Pending then Some (0, promise w)
         else run_until_settled (event_queue timer evs) w)"

subsection \<open>startCamera\<close>

text \<open>The relay step of \<open>startCamera\<close>: what it throws, if anything, and the state after it.\<close>

definition relay_step :: "env \<Rightarrow> state \<Rightarrow> thrown option \<times> state" where
  \<open>relay_step e s =
     (if isExtension e then
        (case checkPermissionStatus e of
           Inl err \<Rightarrow> (Some err, s)
         | Inr hasPermission \<Rightarrow>
             if \<not> hasPermission then
               (let s1 = onStatusUpdate ''Requesting camera permission via content script...'' s
                in case requestPermissionViaContentScript e of
                     Inl err \<Rightarrow> (Some err, s1)
                   | Inr permissionGranted \<Rightarrow>
                       if \<not> permissionGranted then
                         (Some (Error ''Permission request failed. Please try opening the permission page manually.''),
                          s1\<lparr>permissionStatus := Denied\<rparr>)
                       else (None, s1))
             else (None, s))
      else (None, s))\<close>

text \<open>
  The \<open>try\<close> block: \<open>None\<close> when the wait for the metadata never returns, otherwise what
  the block throws, if anything, and the state it leaves. The tracks of an acquired
  stream are live.
\<close>

definition startCamera_try :: "env \<Rightarrow> state \<Rightarrow> (thrown option \<times> state) option" where
  \<open>startCamera_try e s0 =
     (let s1 = (onStatusUpdate ''Checking camera permission...'' (s0\<lparr>isRequestingCamera := True\<rparr>))
                 \<lparr>cameraError := None, permissionStatus := Requesting\<rparr>
      in if \<not> has_getUserMedia e
         then Some (Some (Error ''Camera API not supported in this browser''), s1)
         else
           (case relay_step e s1 of
              (Some err, s2) \<Rightarrow> Some (Some err, s2)
            | (None, s2) \<Rightarrow>
                (let s3 = onStatusUpdate ''Accessing camera...'' s2
                 in case getUserMedia e of
                      Inl err \<Rightarrow> Some (Some err, s3)
                    | Inr strm \<Rightarrow>
                        (let s4 = s3\<lparr>tracks := (\<lambda>t. if t \<in> set strm then Live else tracks s3 t)\<rparr>
                         in case videoRef s4 of
                              None \<Rightarrow> Some (None, s4)
                            | Some video \<Rightarrow>
                                (let s5 = s4\<lparr>videoRef := Some (video\<lparr>srcObject := Some strm\<rparr>),
                                            streamRef := Some strm\<rparr>
                                 in case waitForMetadata (videoRef s5) (video_events e) of
                                      None \<Rightarrow> None
                                    | Some (t, Rejected err) \<Rightarrow> Some (Some err, s5)
                                    | Some (t, _) \<Rightarrow>
                                        (case videoRef s5 of
                                           None \<Rightarrow> Some (None, s5)
                                         | Some v \<Rightarrow>
                                             (case play e of
                                                Some err \<Rightarrow> Some (Some err, s5)
                                              | None \<Rightarrow>
                                                  Some (None,
                                                    onStatusUpdate ''Camera ready - Click "Scan Frame" to analyze''
                                                      (s5\<lparr>videoRef := Some (v\<lparr>paused := False\<rparr>),
                                                          isCameraActive := True,
                                                          permissionStatus := Granted\<rparr>)))))))))\<close>

text \<open>\<open>includes\<close>: the second string occurs in the first.\<close>

fun includes_str :: "string \<Rightarrow> string \<Rightarrow> bool" where
  "includes_str [] sub = (sub = [])"
| "includes_str (c # cs) sub = (prefix sub (c # cs) \<or> includes_str cs sub)"

text \<open>
  The classification in the \<open>catch\<close> block: the message, whether the permission button
  is asked for, and whether the permission state is set to denied.
\<close>

definition classify :: "thrown \<Rightarrow> string \<times> bool \<times> bool" where
  \<open>classify error =
     (case thrown_name error of
        None \<Rightarrow> (''Camera access failed'', False, False)
      | Some errorName \<Rightarrow>
          if errorName = ''NotAllowedError'' then
            (''Camera permission denied. Please allow camera access.'', True, True)
          else if errorName = ''NotFoundError'' then
            (''No camera found on this device'', False, False)
          else if errorName = ''NotReadableError'' then
            (''Camera is already in use by another application'', False, False)
          else if errorName = ''OverconstrainedError'' then
            (''Camera does not support the required settings'', False, False)
          else if errorName = ''SecurityError'' then
            (''Camera access blocked due to security restrictions'', True, False)
          else if errorName = ''AbortError'' then
            (''Camera access was cancelled'', False, False)
          else
            (case thrown_message error of
               None \<Rightarrow> (''Camera access failed'', False, False)
             | Some m \<Rightarrow> (m, includes_str m ''Permission request failed'', False)))\<close>

definition startCamera_catch :: "env \<Rightarrow> thrown \<Rightarrow> state \<Rightarrow> state" where
  \<open>startCamera_catch e error s =
     (let (errorMessage, showPermissionButton, denied) = classify error;
          s1 = (if denied then s\<lparr>permissionStatus := Denied\<rparr> else s);
          s2 = (onStatusUpdate errorMessage (s1\<lparr>cameraError := Some errorMessage\<rparr>))
                 \<lparr>isCameraActive := False\<rparr>
      in if showPermissionButton \<and> isExtension e
         then s2\<lparr>cameraError :=
                  Some (errorMessage @ '' Click "Open Permission Page" below to grant access.'')\<rparr>
         else s2)\<close>

text \<open>\<open>startCamera\<close>: the state once the call has finished, \<open>None\<close> if it never does.\<close>

definition startCamera :: "env \<Rightarrow> state \<Rightarrow> state option" where
  "startCamera e s =
     (case startCamera_try e s of
        None \<Rightarrow> None
      | Some (None, s') \<Rightarrow> Some (s'\<lparr>isRequestingCamera := False\<rparr>)
      | Some (Some error, s') \<Rightarrow> Some ((startCamera_catch e error s')\<lparr>isRequestingCamera := False\<rparr>))"

subsection \<open>stopCamera\<close>

definition stopCamera :: "state \<Rightarrow> state" where
  "stopCamera s =
     (let s1 = (case streamRef s of
                  Some strm \<Rightarrow>
                    s\<lparr>tracks := (\<lambda>t. if t \<in> set strm then Ended else tracks s t),
                      streamRef := None\<rparr>
                | None \<Rightarrow> s);
          s2 = (case videoRef s1 of
                  Some video \<Rightarrow> s1\<lparr>videoRef := Some (video\<lparr>srcObject := None\<rparr>)\<rparr>
                | None \<Rightarrow> s1)
      in onStatusUpdate ''Camera stopped''
           (s2\<lparr>isCameraActive := False, cameraError := None, permissionStatus := Unknown\<rparr>))"

subsection \<open>Permission updates from the content script\<close>

record message =
  action :: string
  granted :: bool
  error_text :: "string option"

text \<open>
  The listener that the effect adds. The \<open>permissionStatus\<close> it tests is the one of the
  render whose effect created it, held in its closure (\<open>captured\<close>); the updates go to
  the state as it is when the message arrives.
\<close>

definition handleMessage :: "permission \<Rightarrow> message \<Rightarrow> state \<Rightarrow> state" where
  \<open>handleMessage captured m s =
     (if action m = ''cameraPermissionUpdate'' then
        (if granted m then
           (let s1 = s\<lparr>permissionStatus := Granted\<rparr>
            in if captured = Denied
               then onStatusUpdate ''Camera permission granted! Click "Start Camera" to continue.''
                      (s1\<lparr>cameraError := None\<rparr>)
               else s1)
         else s\<lparr>permissionStatus := Denied,
                cameraError := Some (or_default (error_text m) ''Camera permission denied'')\<rparr>)
      else s)\<close>

text \<open>
  The effect runs after a render and adds the listener only in the extension, with a
  runtime object. \<open>subscribe e s\<close> is the listener in place after the render of the state
  \<open>s\<close>, given by the permission state it captured (\<open>None\<close>: no listener). The effect
  runs again, replacing the listener, only after a later render.
\<close>

definition listening :: "env \<Rightarrow> bool" where
  "listening e =
     (isExtension e \<and>
      (case chrome e of None \<Rightarrow> False | Some c \<Rightarrow> runtime c \<noteq> None))"

definition subscribe :: "env \<Rightarrow> state \<Rightarrow> permission option" where
  "subscribe e s = (if listening e then Some (permissionStatus s) else None)"

fun dispatch :: "permission option \<Rightarrow> message \<Rightarrow> state \<Rightarrow> state" where
  "dispatch None m s = s"
| "dispatch (Some captured) m s = handleMessage captured m s"

text \<open>
  \<open>receive e s ms\<close>: the component has rendered the state \<open>s\<close> and its effect has run;
  then the messages \<open>ms\<close> arrive one after the other before the next render, so all of
  them reach the listener of that render.
\<close>

definition receive :: "env \<Rightarrow> state \<Rightarrow> message list \<Rightarrow> state" where
  "receive e s ms = foldl (\<lambda>s' m. dispatch (subscribe e s) m s') s ms"

subsection \<open>What the component shows\<close>

text \<open>
  The parts of the rendered component that depend on the state: the error alert (for a
  non-empty error), the permission button inside it, the banner shown while requesting,
  and which controls are offered.
\<close>

record webcam_view =
  error_alert :: "string option"
  permission_button :: bool
  requesting_banner :: bool
  video_visible :: bool
  start_button :: bool
  start_button_disabled :: bool
  stop_button :: bool

definition truthy :: "string option \<Rightarrow> bool" where
  "truthy x = (case x of None \<Rightarrow> False | Some m \<Rightarrow> m \<noteq> [])"

definition WebcamPreview :: "env \<Rightarrow> state \<Rightarrow> webcam_view" where
  "WebcamPreview e s =
     \<lparr>error_alert = (if truthy (cameraError s) then cameraError s else None),
      permission_button = (truthy (cameraError s) \<and> permissionStatus s = Denied \<and> isExtension e),
      requesting_banner = (permissionStatus s = Requesting),
      video_visible = isCameraActive s,
      start_button = (\<not> isCameraActive s),
      start_button_disabled = (\<not> isCameraActive s \<and> isRequestingCamera s),
      stop_button = isCameraActive s\<rparr>"

section \<open>Failures of the relay\<close>

text \<open>
  A failure while talking to the relay with the message \<open>act\<close>: there is no \<open>tabs\<close>
  interface, the query for the active tab is rejected, there is no active tab with an
  id, or sending the message is rejected.
\<close>

definition relay_fails :: "env \<Rightarrow> string \<Rightarrow> bool" where
  "relay_fails e act =
     (case chrome_tabs_of e of
        None \<Rightarrow> True
      | Some t \<Rightarrow>
          (case tabs_query t of
             Inl x \<Rightarrow> True
           | Inr ts \<Rightarrow>
               (case first_tab_id ts of
                  None \<Rightarrow> True
                | Some i \<Rightarrow>
                    (case tabs_sendMessage t i act of Inl x \<Rightarrow> True | Inr r \<Rightarrow> False))))"

section \<open>Example values\<close>

text \<open>A backend response with status 200 and the given parsed body.\<close>

definition ok_response :: "nat ApiResponse \<Rightarrow> nat response" where
  "ok_response data = \<lparr>status = 200, json = Inr data\<rparr>"

definition fake_body :: "nat ApiResponse" where
  "fake_body =
     \<lparr>resp_success = True, resp_label = ''Fake'', resp_confidence = 87, resp_timestamp = ''T'',
      resp_image_info = None, resp_media_info = None, resp_error = None, resp_message = None\<rparr>"


definition result_with_label :: "string \<Rightarrow> nat AnalysisResult" where
  "result_with_label l =
     \<lparr>success = True, label = l, confidence = 42, timestamp = ''T'',
      image_info = None, media_info = None\<rparr>"

text \<open>
  The component as mounted, before any call; an extension popup whose relay grants the
  permission, and one with other \<open>tabs\<close> behaviour; a plain page without the extension
  interface.
\<close>

definition mounted_video :: video_element where
  "mounted_video = \<lparr>srcObject = None, paused = True\<rparr>"

definition initial_state :: state where
  "initial_state =
     \<lparr>isCameraActive = False, cameraError = None, isRequestingCamera = False,
      permissionStatus = Unknown, streamRef = None, videoRef = Some mounted_video,
      tracks = (\<lambda>_. Ended), app_status = ''Ready to start camera''\<rparr>"

definition granting_tabs :: chrome_tabs where
  "granting_tabs =
     \<lparr>tabs_query = Inr [Some 7],
      tabs_sendMessage = (\<lambda>_ _. Inr (Some \<lparr>reply_success = True, reply_granted = True\<rparr>))\<rparr>"

definition extension_env :: "chrome_tabs option \<Rightarrow> thrown + stream \<Rightarrow> (nat \<times> video_event) list \<Rightarrow> env" where
  "extension_env t g evs =
     \<lparr>chrome = Some \<lparr>runtime = Some \<lparr>runtime_id = Some ''liveverify''\<rparr>, tabs = t\<rparr>,
      has_getUserMedia = True, getUserMedia = g, video_events = evs, play = None\<rparr>"

definition page_env :: "thrown + stream \<Rightarrow> (nat \<times> video_event) list \<Rightarrow> env" where
  "page_env g evs =
     \<lparr>chrome = None, has_getUserMedia = True, getUserMedia = g, video_events = evs, play = None\<rparr>"

definition denied_state :: state where
  \<open>denied_state =
     \<lparr>isCameraActive = False,
      cameraError = Some ''Camera permission denied. Please allow camera access.'',
      isRequestingCamera = False, permissionStatus = Denied, streamRef = None,
      videoRef = Some mounted_video, tracks = (\<lambda>_. Ended),
      app_status = ''Camera permission denied. Please allow camera access.''\<rparr>\<close>

definition active_state :: state where
  \<open>active_state =
     \<lparr>isCameraActive = True, cameraError = None, isRequestingCamera = False,
      permissionStatus = Granted, streamRef = Some [0],
      videoRef = Some \<lparr>srcObject = Some [0], paused = False\<rparr>,
      tracks = (\<lambda>t. if t \<in> set [0] then Live else Ended),
      app_status = ''Camera ready - Click "Scan Frame" to analyze''\<rparr>\<close>

text \<open>Two rejections of \<open>getUserMedia\<close>, and a relay that cannot be reached.\<close>

definition security_error :: thrown where
  "security_error = Thrown (Some ''SecurityError'') (Some ''The operation is insecure.'')"

definition not_allowed_error :: thrown where
  "not_allowed_error = Thrown (Some ''NotAllowedError'') (Some ''Permission denied'')"

text \<open>The two permission updates of the content script.\<close>

definition refusal :: message where
  "refusal = \<lparr>action = ''cameraPermissionUpdate'', granted = False, error_text = None\<rparr>"

definition grant :: message where
  "grant = \<lparr>action = ''cameraPermissionUpdate'', granted = True, error_text = None\<rparr>"

definition popup_env :: env where
  "popup_env = extension_env (Some granting_tabs) (Inr [0]) []"

definition no_tab :: chrome_tabs where
  "no_tab = \<lparr>tabs_query = Inr [], tabs_sendMessage = (\<lambda>_ _. Inr None)\<rparr>"

definition unreachable_tab :: chrome_tabs where
  "unreachable_tab =
     \<lparr>tabs_query = Inr [Some 7],
      tabs_sendMessage = (\<lambda>_ _. Inl (Error ''Could not establish connection. Receiving end does not exist.''))\<rparr>"

section \<open>Properties of the analysis service client\<close>

lemma includes_str_append: "includes_str (p @ s) s"
proof (induction p)
  case Nil
  show ?case by (cases s) simp_all
next
  case (Cons a p)
  then show ?case by simp
qed

text \<open>
  C1. For a response with a 2xx status whose body has \<open>success: true\<close>, label \<open>L\<close>,
  confidence \<open>C\<close> and timestamp \<open>T\<close>, both \<open>analyzeImage\<close> and \<open>verifyMedia\<close> return
  normally, and the result has label \<open>L\<close>, confidence \<open>C\<close> and timestamp \<open>T\<close>.
\<close>

theorem api_success_returns_result:
  "ok r \<Longrightarrow> json r = Inr data \<Longrightarrow> resp_success data \<Longrightarrow>
   (\<exists>res. fst (analyzeImage now (\<lambda>_. Inr r) imageData) = Inr res \<and>
          label res = resp_label data \<and> confidence res = resp_confidence data \<and>
          timestamp res = resp_timestamp data) \<and>
   (\<exists>res. fst (verifyMedia now (\<lambda>_. Inr r) mediaData mimeType) = Inr res \<and>
          label res = resp_label data \<and> confidence res = resp_confidence data \<and>
          timestamp res = resp_timestamp data)"
  by (simp add: analyzeImage_def verifyMedia_def)

text \<open>
  The response \<open>{success: true, label: "Fake", confidence: 87, timestamp: "T"}\<close>: the caller
  receives a result with label \<open>Fake\<close> and confidence 87.
\<close>

theorem api_success_returns_result_witness:
  "ok (ok_response fake_body) \<and> json (ok_response fake_body) = Inr fake_body \<and>
   resp_success fake_body \<and>
   (\<exists>res. fst (analyzeImage ''2024-01-01T00:00:00.000Z'' (\<lambda>_. Inr (ok_response fake_body))
                 ''data:image/jpeg;base64,AA'') = Inr res \<and>
          label res = ''Fake'' \<and> confidence res = 87 \<and> timestamp res = ''T'') \<and>
   (\<exists>res. fst (verifyMedia ''2024-01-01T00:00:00.000Z'' (\<lambda>_. Inr (ok_response fake_body))
                 ''data:video/mp4;base64,AA'' ''video/mp4'') = Inr res \<and>
          label res = ''Fake'' \<and> confidence res = 87 \<and> timestamp res = ''T'')"
proof -
  have h1: "ok (ok_response fake_body)"
    by (simp add: ok_def ok_response_def)
  have h2: "json (ok_response fake_body) = Inr fake_body"
    by (simp add: ok_response_def)
  have h3: "resp_success fake_body"
    by (simp add: fake_body_def)
  have v: "resp_label fake_body = ''Fake''" "resp_confidence fake_body = 87"
    "resp_timestamp fake_body = ''T''"
    by (simp_all add: fake_body_def)
  from api_success_returns_result [OF h1 h2 h3] h1 h2 h3 show ?thesis
    unfolding v by blast
qed




text \<open>
  C3. For a response whose status is not in the range 200 to 299, both functions raise
  a failure whose message is \<open>Backend error: \<close> followed by the status code in decimal,
  so the message includes the code; the only action performed is the request, and the
  body of the response is not read.
\<close>

theorem api_non2xx_failure:
  "status r < 200 \<or> 299 < status r \<Longrightarrow>
   analyzeImage now (\<lambda>_. Inr r) imageData =
     (Inl (Error (''Backend error: '' @ Number_toString (status r))),
      [Fetch \<lparr>url = ''http://localhost:5000/analyze'', http_method = ''POST'',
              content_type = ''application/json'', body = ImagePayload imageData now\<rparr>]) \<and>
   verifyMedia now (\<lambda>_. Inr r) mediaData mimeType =
     (Inl (Error (''Backend error: '' @ Number_toString (status r))),
      [Fetch \<lparr>url = ''http://localhost:5000/verify-media'', http_method = ''POST'',
              content_type = ''application/json'', body = MediaPayload mediaData mimeType now\<rparr>]) \<and>
   ReadBody \<notin> set (snd (analyzeImage now (\<lambda>_. Inr r) imageData)) \<and>
   ReadBody \<notin> set (snd (verifyMedia now (\<lambda>_. Inr r) mediaData mimeType)) \<and>
   includes_str (''Backend error: '' @ Number_toString (status r)) (Number_toString (status r))"
proof -
  assume "status r < 200 \<or> 299 < status r"
  then have n: "\<not> ok r"
    by (auto simp add: ok_def)
  have a: "analyzeImage now (\<lambda>_. Inr r) imageData =
     (Inl (Error (''Backend error: '' @ Number_toString (status r))),
      [Fetch \<lparr>url = ''http://localhost:5000/analyze'', http_method = ''POST'',
              content_type = ''application/json'', body = ImagePayload imageData now\<rparr>])"
    using n by (simp add: analyzeImage_def API_BASE_URL_def)
  have v: "verifyMedia now (\<lambda>_. Inr r) mediaData mimeType =
     (Inl (Error (''Backend error: '' @ Number_toString (status r))),
      [Fetch \<lparr>url = ''http://localhost:5000/verify-media'', http_method = ''POST'',
              content_type = ''application/json'', body = MediaPayload mediaData mimeType now\<rparr>])"
    using n by (simp add: verifyMedia_def API_BASE_URL_def)
  have i: "includes_str (''Backend error: '' @ Number_toString (status r)) (Number_toString (status r))"
    by (rule includes_str_append)
  show ?thesis
    unfolding a v using i by simp
qed

text \<open>Status 500: the failure message is \<open>Backend error: 500\<close>.\<close>

theorem api_non2xx_failure_witness:
  "299 < status \<lparr>status = 500, json = Inr fake_body\<rparr> \<and>
   fst (analyzeImage ''2024-01-01T00:00:00.000Z'' (\<lambda>_. Inr \<lparr>status = 500, json = Inr fake_body\<rparr>)
          ''data:image/jpeg;base64,AA'') = Inl (Error ''Backend error: 500'') \<and>
   fst (verifyMedia ''2024-01-01T00:00:00.000Z'' (\<lambda>_. Inr \<lparr>status = 500, json = Inr fake_body\<rparr>)
          ''data:video/mp4;base64,AA'' ''video/mp4'') = Inl (Error ''Backend error: 500'') \<and>
   ReadBody \<notin> set (snd (analyzeImage ''2024-01-01T00:00:00.000Z''
                          (\<lambda>_. Inr \<lparr>status = 500, json = Inr fake_body\<rparr>)
                          ''data:image/jpeg;base64,AA''))"
proof -
  have h: "status \<lparr>status = 500, json = Inr fake_body\<rparr> < 200 \<or>
           299 < status \<lparr>status = 500, json = Inr fake_body\<rparr>"
    by simp
  have n: "Number_toString 500 = ''500''"
    by code_simp
  from api_non2xx_failure [OF h] n show ?thesis
    by simp
qed

section \<open>Properties of the result presentation\<close>

lemma toLowerChar_idem: "toLowerChar (toLowerChar c) = toLowerChar c"
  unfolding toLowerChar_def Let_def
  by (auto simp: of_char_of)

lemma toLowerCase_idem: "toLowerCase (toLowerCase s) = toLowerCase s"
  by (simp add: toLowerCase_def toLowerChar_idem)

lemma differ_only_in_case_iff: "differ_only_in_case a b \<longleftrightarrow> toLowerCase a = toLowerCase b"
  unfolding differ_only_in_case_def toLowerCase_def
  by (induction a arbitrary: b) (auto simp: list_all2_Cons1)

text \<open>
  C4. Two results whose labels differ only in letter casing get the same display
  treatment (icon, text, colours), the same bar colour and the same card; and the
  treatment of a label is the treatment of its lower-cased form.
\<close>

theorem display_case_insensitive:
  "differ_only_in_case a b \<Longrightarrow>
   getResultDisplay (r\<lparr>label := a\<rparr>) = getResultDisplay (r\<lparr>label := b\<rparr>) \<and>
   barColor (r\<lparr>label := a\<rparr>) = barColor (r\<lparr>label := b\<rparr>) \<and>
   ResultCard S (r\<lparr>label := a\<rparr>) = ResultCard S (r\<lparr>label := b\<rparr>) \<and>
   getResultDisplay (r\<lparr>label := toLowerCase a\<rparr>) = getResultDisplay (r\<lparr>label := a\<rparr>) \<and>
   barColor (r\<lparr>label := toLowerCase a\<rparr>) = barColor (r\<lparr>label := a\<rparr>)"
  by (simp add: differ_only_in_case_iff getResultDisplay_def barColor_def ResultCard_def
      toLowerCase_idem)

text \<open>The labels \<open>REAL\<close>, \<open>real\<close> and \<open>Real\<close> all get the treatment of \<open>Real\<close>.\<close>

theorem display_case_insensitive_witness:
  "differ_only_in_case ''REAL'' ''real'' \<and> differ_only_in_case ''REAL'' ''Real'' \<and>
   getResultDisplay (result_with_label ''REAL'') = getResultDisplay (result_with_label ''real'') \<and>
   getResultDisplay (result_with_label ''REAL'') = getResultDisplay (result_with_label ''Real'') \<and>
   barColor (result_with_label ''REAL'') = barColor (result_with_label ''Real'') \<and>
   ResultCard Number_toString (result_with_label ''REAL'') =
     ResultCard Number_toString (result_with_label ''real'')"
proof -
  have h1: "differ_only_in_case ''REAL'' ''real''"
    by code_simp
  have h2: "differ_only_in_case ''REAL'' ''Real''"
    by code_simp
  have u: "(result_with_label [])\<lparr>label := l\<rparr> = result_with_label l" for l
    by (simp add: result_with_label_def)
  from display_case_insensitive [OF h1, of "result_with_label []" Number_toString]
    display_case_insensitive [OF h2, of "result_with_label []" Number_toString] h1 h2
  show ?thesis
    unfolding u by simp
qed

text \<open>
  C10. For a result whose lower-cased label is none of \<open>real\<close>, \<open>fake\<close> and \<open>suspicious\<close>,
  the card is rendered with the fallback treatment: the question-mark icon, the text
  \<open>Unknown\<close> and the gray colour classes. It still shows the confidence and a progress
  bar whose width is the confidence in percent. (The bar itself takes the yellow class.)
\<close>

theorem unknown_label_fallback:
  "toLowerCase (label r) \<noteq> ''real'' \<Longrightarrow> toLowerCase (label r) \<noteq> ''fake'' \<Longrightarrow>
   toLowerCase (label r) \<noteq> ''suspicious'' \<Longrightarrow>
   getResultDisplay r =
     \<lparr>icon = QuestionMark, text_of = ''Unknown'', color = ''text-gray-400'',
      bgColor = ''bg-gray-900/20'', borderColor = ''border-gray-500/30''\<rparr> \<and>
   icon_shown (ResultCard S r) = QuestionMark \<and>
   heading_text (ResultCard S r) = ''Unknown'' \<and>
   heading_class (ResultCard S r) = ''text-lg font-semibold mb-1 text-gray-400'' \<and>
   container_class (ResultCard S r) =
     ''fade-in-up border rounded-lg p-4 bg-gray-900/20 border-gray-500/30'' \<and>
   confidence_line (ResultCard S r) = ''Confidence: '' @ S (confidence r) @ ''%'' \<and>
   bar_width (ResultCard S r) = S (confidence r) @ ''%'' \<and>
   bar_class (ResultCard S r) = ''h-2 rounded-full transition-all duration-500 bg-yellow-500''"
  by (simp add: getResultDisplay_def ResultCard_def barColor_def)

text \<open>The label \<open>Maybe\<close> with confidence 42.\<close>

theorem unknown_label_fallback_witness:
  "toLowerCase (label (result_with_label ''Maybe'')) \<noteq> ''real'' \<and>
   toLowerCase (label (result_with_label ''Maybe'')) \<noteq> ''fake'' \<and>
   toLowerCase (label (result_with_label ''Maybe'')) \<noteq> ''suspicious'' \<and>
   icon_shown (ResultCard Number_toString (result_with_label ''Maybe'')) = QuestionMark \<and>
   heading_text (ResultCard Number_toString (result_with_label ''Maybe'')) = ''Unknown'' \<and>
   confidence_line (ResultCard Number_toString (result_with_label ''Maybe'')) = ''Confidence: 42%'' \<and>
   bar_width (ResultCard Number_toString (result_with_label ''Maybe'')) = ''42%''"
proof -
  have l: "toLowerCase (label (result_with_label ''Maybe'')) = ''maybe''"
    by code_simp
  have c: "confidence (result_with_label ''Maybe'') = 42"
    by (simp add: result_with_label_def)
  have n: "Number_toString 42 = ''42''"
    by code_simp
  have h: "toLowerCase (label (result_with_label ''Maybe'')) \<noteq> ''real''"
    "toLowerCase (label (result_with_label ''Maybe'')) \<noteq> ''fake''"
    "toLowerCase (label (result_with_label ''Maybe'')) \<noteq> ''suspicious''"
    by (simp_all add: l)
  from unknown_label_fallback [OF h, of Number_toString] h show ?thesis
    unfolding c n by simp
qed

section \<open>Properties of the camera controller\<close>

lemmas env_defs = extension_env_def page_env_def granting_tabs_def isExtension_def chrome_tabs_of_def
  checkPermissionStatus_def checkPermission_try_def requestPermissionViaContentScript_def
  requestPermission_try_def

lemmas wait_defs = waitForMetadata_def metadata_executor_def event_queue_def onTimeout_def onError_def
  onLoadedMetadata_def reject_def resolve_def removeListeners_def

lemmas start_defs = startCamera_def startCamera_try_def startCamera_catch_def relay_step_def
  classify_def onStatusUpdate_def Error_def

lemma denied_state_reached:
  "startCamera (page_env (Inl (Thrown (Some ''NotAllowedError'') (Some ''Permission denied''))) [])
     initial_state = Some denied_state"
  by (simp add: start_defs env_defs initial_state_def denied_state_def)

lemma active_state_reached:
  "startCamera (page_env (Inr [0]) [(120, LoadedMetadata)]) initial_state = Some active_state"
  by (simp add: start_defs env_defs wait_defs initial_state_def active_state_def mounted_video_def fun_eq_iff)

text \<open>
  C5, as stated, fails: with no session active \<open>stopCamera\<close> still acts. After a denied
  attempt (no stream held) it clears the displayed error, resets the permission state
  and replaces the status line.
\<close>

theorem stopCamera_no_session_counterexample:
  "streamRef denied_state = None \<and> stopCamera denied_state \<noteq> denied_state \<and>
   cameraError (stopCamera denied_state) \<noteq> cameraError denied_state \<and>
   permissionStatus (stopCamera denied_state) \<noteq> permissionStatus denied_state \<and>
   app_status (stopCamera denied_state) \<noteq> app_status denied_state"
proof -
  have p: "permissionStatus (stopCamera denied_state) = Unknown"
    "permissionStatus denied_state = Denied"
    by (simp_all add: stopCamera_def denied_state_def onStatusUpdate_def mounted_video_def)
  then have "stopCamera denied_state \<noteq> denied_state"
    by auto
  moreover have "streamRef denied_state = None"
    by (simp add: denied_state_def)
  moreover have "cameraError (stopCamera denied_state) \<noteq> cameraError denied_state"
    by (simp add: stopCamera_def denied_state_def onStatusUpdate_def mounted_video_def)
  moreover have "app_status (stopCamera denied_state) \<noteq> app_status denied_state"
    by (simp add: stopCamera_def denied_state_def onStatusUpdate_def mounted_video_def)
  ultimately show ?thesis using p by simp
qed

text \<open>
  C5, amended. \<open>stopCamera\<close> is idempotent on the state: a second consecutive call leaves
  the state unchanged. From any state it stops all tracks of the held stream, empties
  the stream reference, detaches the stream from the video element, resets the
  permission state to unknown, clears the error, leaves the camera inactive and sets
  the status line to \<open>Camera stopped\<close>. With no session active it changes no track (and
  it cannot raise), but it still performs these resets.
\<close>

theorem stopCamera_idempotent:
  "stopCamera (stopCamera s) = stopCamera s \<and>
   streamRef (stopCamera s) = None \<and>
   (\<forall>strm. streamRef s = Some strm \<longrightarrow> (\<forall>t \<in> set strm. tracks (stopCamera s) t = Ended)) \<and>
   (\<forall>v. videoRef (stopCamera s) = Some v \<longrightarrow> srcObject v = None) \<and>
   permissionStatus (stopCamera s) = Unknown \<and>
   \<not> isCameraActive (stopCamera s) \<and>
   cameraError (stopCamera s) = None \<and>
   app_status (stopCamera s) = ''Camera stopped'' \<and>
   (streamRef s = None \<longrightarrow> tracks (stopCamera s) = tracks s)"
  by (cases "streamRef s"; cases "videoRef s")
     (simp_all add: stopCamera_def onStatusUpdate_def)

text \<open>The active state, whose track 0 is live, and the initial state, which holds no stream.\<close>

theorem stopCamera_idempotent_witness:
  "streamRef active_state = Some [0] \<and> tracks active_state 0 = Live \<and>
   tracks (stopCamera active_state) 0 = Ended \<and>
   stopCamera (stopCamera active_state) = stopCamera active_state \<and>
   streamRef initial_state = None \<and>
   tracks (stopCamera initial_state) = tracks initial_state \<and>
   permissionStatus (stopCamera initial_state) = Unknown"
proof -
  have a: "streamRef active_state = Some [0]" "tracks active_state 0 = Live"
    by (simp_all add: active_state_def)
  have i: "streamRef initial_state = None"
    by (simp add: initial_state_def)
  from stopCamera_idempotent [of active_state] stopCamera_idempotent [of initial_state] a i show ?thesis
    by simp
qed


lemma run_until_settled_bound:
  "promise w = Pending \<Longrightarrow>
   \<exists>t out. run_until_settled (enqueue_timer d evs) w = Some (t, out) \<and> t \<le> d \<and> out \<noteq> Pending"
proof (induction evs arbitrary: w)
  case Nil
  then show ?case
    by (simp add: onTimeout_def reject_def removeListeners_def)
next
  case (Cons x evs)
  obtain t ev where x: "x = (t, ev)"
    by (cases x)
  show ?case
  proof (cases "t \<le> d")
    case True
    show ?thesis
    proof (cases "promise (deliver (VideoEvent ev) w) = Pending")
      case True
      from Cons.IH [OF True] \<open>t \<le> d\<close> True show ?thesis
        by (simp add: x)
    next
      case False
      with \<open>t \<le> d\<close> show ?thesis
        by (simp add: x)
    qed
  next
    case False
    with Cons.prems show ?thesis
      by (simp add: x onTimeout_def reject_def removeListeners_def)
  qed
qed

lemma run_until_settled_timeout:
  "promise w = Pending \<Longrightarrow> \<forall>(t, ev) \<in> set evs. d < t \<Longrightarrow>
   run_until_settled (enqueue_timer d evs) w = Some (d, Rejected (Error ''Video loading timeout''))"
  by (cases evs) (auto simp add: onTimeout_def reject_def removeListeners_def)

lemma waitForMetadata_settles:
  "\<exists>t out. waitForMetadata v evs = Some (t, out) \<and> t \<le> 10000 \<and> out \<noteq> Pending"
proof (cases v)
  case None
  then show ?thesis
    by (simp add: waitForMetadata_def metadata_executor_def reject_def)
next
  case (Some video)
  have "promise \<lparr>promise = Pending, loadedmetadata_listener = True, error_listener = True\<rparr> = Pending"
    by simp
  from run_until_settled_bound [OF this, of 10000 evs] Some show ?thesis
    by (simp add: waitForMetadata_def metadata_executor_def event_queue_def)
qed

lemma waitForMetadata_timeout:
  "v \<noteq> None \<Longrightarrow> \<forall>(t, ev) \<in> set evs. 10000 < t \<Longrightarrow>
   waitForMetadata v evs = Some (10000, Rejected (Error ''Video loading timeout''))"
  by (cases v)
     (simp_all add: waitForMetadata_def metadata_executor_def event_queue_def
        run_until_settled_timeout)

lemma waitForMetadata_not_None: "waitForMetadata v evs \<noteq> None"
  using waitForMetadata_settles [of v evs] by auto

lemma startCamera_try_finishes: "startCamera_try e s \<noteq> None"
  unfolding startCamera_try_def Let_def
  by (simp add: waitForMetadata_not_None
      split: option.split prod.split sum.split promise_state.split)

lemma startCamera_finishes: "startCamera e s \<noteq> None"
  using startCamera_try_finishes [of e s]
  by (auto simp add: startCamera_def split: option.split prod.split)

lemma timeout_not_permission: "\<not> includes_str ''Video loading timeout'' ''Permission request failed''"
  by code_simp

lemma classify_timeout:
  "classify (Error ''Video loading timeout'') = (''Video loading timeout'', False, False)"
  by (simp add: classify_def Error_def timeout_not_permission)

lemma checkPermissionStatus_returns: "\<exists>b. checkPermissionStatus e = Inr b"
  by (auto simp add: checkPermissionStatus_def split: option.split sum.split)

lemma requestPermission_returns: "\<exists>b. requestPermissionViaContentScript e = Inr b"
  by (auto simp add: requestPermissionViaContentScript_def split: option.split sum.split)

lemma relay_step_confirmed:
  "\<not> isExtension e \<or> checkPermissionStatus e = Inr True \<or>
     requestPermissionViaContentScript e = Inr True \<Longrightarrow>
   \<exists>s'. relay_step e s = (None, s') \<and> videoRef s' = videoRef s \<and> tracks s' = tracks s"
  using checkPermissionStatus_returns [of e]
  by (auto simp add: relay_step_def onStatusUpdate_def split: sum.split)

lemma startCamera_timeout:
  assumes "has_getUserMedia e"
    and "\<not> isExtension e \<or> checkPermissionStatus e = Inr True \<or>
         requestPermissionViaContentScript e = Inr True"
    and "getUserMedia e = Inr strm"
    and "videoRef s \<noteq> None"
    and "\<forall>(t, ev) \<in> set (video_events e). 10000 < t"
  shows "\<exists>s'. startCamera e s = Some s' \<and> cameraError s' = Some ''Video loading timeout'' \<and>
            app_status s' = ''Video loading timeout'' \<and> \<not> isCameraActive s' \<and>
            \<not> isRequestingCamera s'"
proof -
  let ?s1 = "(onStatusUpdate ''Checking camera permission...'' (s\<lparr>isRequestingCamera := True\<rparr>))
                 \<lparr>cameraError := None, permissionStatus := Requesting\<rparr>"
  from relay_step_confirmed [OF assms(2), of ?s1]
  obtain s2 where r: "relay_step e ?s1 = (None, s2)" and v2: "videoRef s2 = videoRef s"
    by (auto simp add: onStatusUpdate_def)
  from assms(4) v2 obtain video where v: "videoRef s2 = Some video"
    by auto
  have w: "waitForMetadata (Some (video\<lparr>srcObject := Some strm\<rparr>)) (video_events e) =
      Some (10000, Rejected (Error ''Video loading timeout''))"
    by (rule waitForMetadata_timeout) (use assms(5) in simp_all)
  have t: "startCamera_try e s = Some (Some (Error ''Video loading timeout''),
      (onStatusUpdate ''Accessing camera...'' s2)
        \<lparr>tracks := (\<lambda>t. if t \<in> set strm then Live else tracks s2 t),
         videoRef := Some (video\<lparr>srcObject := Some strm\<rparr>), streamRef := Some strm\<rparr>)"
    unfolding startCamera_try_def Let_def
    using assms(1) assms(3) r v w
    by (simp add: onStatusUpdate_def cong: if_cong)
  show ?thesis
    unfolding startCamera_def t
    by (simp add: startCamera_catch_def classify_timeout onStatusUpdate_def)
qed


text \<open>
  C6. The wait for the video metadata always settles, no later than 10000 milliseconds
  after the stream is bound; if no metadata event and no error event of the video comes
  within that time, it is rejected with the error \<open>Video loading timeout\<close>. Hence
  \<open>startCamera\<close> always finishes, and in that case it ends inactive with this error as
  camera error and status.
\<close>

theorem metadata_wait_bounded:
  "(\<exists>t out. waitForMetadata v evs = Some (t, out) \<and> t \<le> 10000 \<and> out \<noteq> Pending) \<and>
   (v \<noteq> None \<and> (\<forall>(t, ev) \<in> set evs. 10000 < t) \<longrightarrow>
      waitForMetadata v evs = Some (10000, Rejected (Error ''Video loading timeout''))) \<and>
   startCamera e s \<noteq> None \<and>
   (has_getUserMedia e \<and>
    (\<not> isExtension e \<or> checkPermissionStatus e = Inr True \<or>
       requestPermissionViaContentScript e = Inr True) \<and>
    getUserMedia e = Inr strm \<and> videoRef s \<noteq> None \<and>
    (\<forall>(t, ev) \<in> set (video_events e). 10000 < t) \<longrightarrow>
      (\<exists>s'. startCamera e s = Some s' \<and> cameraError s' = Some ''Video loading timeout'' \<and>
            app_status s' = ''Video loading timeout'' \<and> \<not> isCameraActive s' \<and>
            \<not> isRequestingCamera s'))"
  using waitForMetadata_settles [of v evs] waitForMetadata_timeout [of v evs]
    startCamera_finishes [of e s] startCamera_timeout [of e strm s]
  by blast

text \<open>A page whose video reports its metadata only after 12 seconds.\<close>

theorem metadata_wait_bounded_witness:
  "has_getUserMedia (page_env (Inr [0]) [(12000, LoadedMetadata)]) \<and>
   \<not> isExtension (page_env (Inr [0]) [(12000, LoadedMetadata)]) \<and>
   videoRef initial_state \<noteq> None \<and>
   list_all (\<lambda>(t, ev). 10000 < t) [(12000::nat, LoadedMetadata)] \<and>
   waitForMetadata (Some mounted_video) [(12000, LoadedMetadata)] =
     Some (10000, Rejected (Error ''Video loading timeout'')) \<and>
   (\<exists>s'. startCamera (page_env (Inr [0]) [(12000, LoadedMetadata)]) initial_state = Some s' \<and>
         cameraError s' = Some ''Video loading timeout'' \<and> \<not> isCameraActive s')"
proof -
  let ?e = "page_env (Inr [0]) [(12000, LoadedMetadata)]"
  have h: "has_getUserMedia ?e" "\<not> isExtension ?e" "getUserMedia ?e = Inr [0]"
    "videoRef initial_state \<noteq> None" "video_events ?e = [(12000, LoadedMetadata)]"
    "\<forall>(t, ev) \<in> set [(12000::nat, LoadedMetadata)]. 10000 < t"
    by (simp_all add: page_env_def isExtension_def initial_state_def)
  from metadata_wait_bounded [of "Some mounted_video" "[(12000, LoadedMetadata)]" ?e initial_state "[0]"] h
  show ?thesis
    by auto
qed

lemma wait_in_time:
  "waitForMetadata (Some mounted_video) [(120, LoadedMetadata)] = Some (120, Resolved)"
  by (simp add: wait_defs)


text \<open>
  C7 does not hold of the code for the security-blocked class. In the extension, when
  \<open>getUserMedia\<close> is rejected with a \<open>SecurityError\<close>, the error text tells the user to
  click the button below, but the permission state stays \<open>requesting\<close> and the button,
  shown only in the state \<open>denied\<close>, is not rendered.
\<close>

theorem security_error_no_permission_button:
  \<open>isExtension (extension_env (Some granting_tabs) (Inl security_error) []) \<and>
   map_option (\<lambda>s. (cameraError s, permissionStatus s,
                    permission_button (WebcamPreview (extension_env (Some granting_tabs) (Inl security_error) []) s)))
     (startCamera (extension_env (Some granting_tabs) (Inl security_error) []) initial_state) =
   Some (Some ''Camera access blocked due to security restrictions Click "Open Permission Page" below to grant access.'',
         Requesting, False)\<close>
  by (simp add: start_defs env_defs initial_state_def security_error_def
      WebcamPreview_def truthy_def)

text \<open>The permission-denied class in the same surroundings: the button is rendered.\<close>

lemma not_allowed_button:
  \<open>map_option (\<lambda>s. (cameraError s, permissionStatus s,
                    permission_button (WebcamPreview (extension_env (Some granting_tabs) (Inl not_allowed_error) []) s)))
     (startCamera (extension_env (Some granting_tabs) (Inl not_allowed_error) []) initial_state) =
   Some (Some ''Camera permission denied. Please allow camera access. Click "Open Permission Page" below to grant access.'',
         Denied, True)\<close>
  by (simp add: start_defs env_defs initial_state_def not_allowed_error_def
      WebcamPreview_def truthy_def)

lemma classify_messages_distinct:
  "distinct (map (\<lambda>n. fst (classify (Thrown (Some n) None)))
     [''NotAllowedError'', ''NotFoundError'', ''NotReadableError'', ''OverconstrainedError'',
      ''SecurityError'', ''AbortError'', ''TypeError''])"
  by (simp add: classify_def)

lemma classify_button:
  "fst (snd (classify (Thrown (Some ''NotAllowedError'') m))) \<and>
   fst (snd (classify (Thrown (Some ''SecurityError'') m)))"
  by (simp add: classify_def)

text \<open>
  What holds of every permission update in the extension: the permission state becomes
  granted when the flag is true and denied otherwise, whatever the listener captured.
\<close>

lemma handleMessage_sets_permission:
  "action m = ''cameraPermissionUpdate'' \<Longrightarrow>
   permissionStatus (handleMessage c m s) = (if granted m then Granted else Denied)"
  by (simp add: handleMessage_def onStatusUpdate_def Let_def)

lemma receive_snoc: "receive e s (ms @ [m]) = dispatch (subscribe e s) m (receive e s ms)"
  by (simp add: receive_def)

lemma permission_update_sets_state:
  "isExtension e \<Longrightarrow> action m = ''cameraPermissionUpdate'' \<Longrightarrow>
   permissionStatus (receive e s (ms @ [m])) = (if granted m then Granted else Denied)"
  unfolding receive_snoc
  by (auto simp add: subscribe_def listening_def isExtension_def handleMessage_sets_permission
      split: option.splits)

text \<open>
  A grant that is the first message after a render of a denied state clears the error
  and sets the status line that asks the user to start the camera again.
\<close>

lemma permission_grant_after_render:
  \<open>isExtension e \<Longrightarrow> action m = ''cameraPermissionUpdate'' \<Longrightarrow> granted m \<Longrightarrow>
   permissionStatus s = Denied \<Longrightarrow>
   cameraError (receive e s [m]) = None \<and>
   app_status (receive e s [m]) = ''Camera permission granted! Click "Start Camera" to continue.''\<close>
  by (auto simp add: receive_def subscribe_def listening_def isExtension_def handleMessage_def
      onStatusUpdate_def Let_def split: option.splits)

text \<open>
  A grant that comes later, the listener having captured another permission state,
  changes the permission state only: the error and the status line stay.
\<close>

lemma permission_grant_stale:
  "action m = ''cameraPermissionUpdate'' \<Longrightarrow> granted m \<Longrightarrow> c \<noteq> Denied \<Longrightarrow>
   handleMessage c m s = s\<lparr>permissionStatus := Granted\<rparr>"
  by (simp add: handleMessage_def Let_def)

text \<open>
  C8 does not hold of the code when the denial has not been rendered yet. In the popup,
  mounted in its initial state, a refusal followed at once by a grant moves the
  permission state from denied to granted, but the listener still holds the permission
  state \<open>unknown\<close> of the last render: the error of the refusal stays displayed and the
  status line is not changed to the prompt to retry.
\<close>

theorem permission_grant_after_refusal_keeps_error:
  \<open>isExtension popup_env \<and>
   permissionStatus (receive popup_env initial_state [refusal]) = Denied \<and>
   permissionStatus (receive popup_env initial_state [refusal, grant]) = Granted \<and>
   cameraError (receive popup_env initial_state [refusal, grant]) = Some ''Camera permission denied'' \<and>
   app_status (receive popup_env initial_state [refusal, grant]) = ''Ready to start camera''\<close>
  by (simp add: receive_def subscribe_def listening_def isExtension_def handleMessage_def
      popup_env_def extension_env_def initial_state_def refusal_def grant_def)

text \<open>With a render between the two messages the grant clears the error.\<close>

lemma permission_grant_after_refusal_rendered:
  \<open>cameraError (receive popup_env (receive popup_env initial_state [refusal]) [grant]) = None \<and>
   app_status (receive popup_env (receive popup_env initial_state [refusal]) [grant]) =
     ''Camera permission granted! Click "Start Camera" to continue.''\<close>
  by (simp add: receive_def subscribe_def listening_def isExtension_def handleMessage_def
      onStatusUpdate_def popup_env_def extension_env_def initial_state_def refusal_def grant_def)

text \<open>
  C9. \<open>checkPermissionStatus\<close> and \<open>requestPermissionViaContentScript\<close> never throw: each
  returns a boolean. Outside the extension, and on every failure of the relay (no
  \<open>tabs\<close> interface, no active tab, a rejected query or a rejected send), each returns
  false.
\<close>

theorem relay_failures_absorbed:
  "(\<exists>b. checkPermissionStatus e = Inr b) \<and>
   (\<exists>b. requestPermissionViaContentScript e = Inr b) \<and>
   (\<not> isExtension e \<or> relay_fails e ''checkCameraPermission'' \<longrightarrow>
      checkPermissionStatus e = Inr False) \<and>
   (\<not> isExtension e \<or> relay_fails e ''requestCameraPermission'' \<longrightarrow>
      requestPermissionViaContentScript e = Inr False)"
  by (auto simp add: checkPermissionStatus_def requestPermissionViaContentScript_def
      checkPermission_try_def requestPermission_try_def relay_fails_def
      split: option.splits sum.splits)


text \<open>
  A popup without the \<open>tabs\<close> interface, one without an active tab, one whose content
  script cannot be reached, and a plain page.
\<close>

theorem relay_failures_absorbed_witness:
  "relay_fails (extension_env None (Inr [0]) []) ''checkCameraPermission'' \<and>
   checkPermissionStatus (extension_env None (Inr [0]) []) = Inr False \<and>
   relay_fails (extension_env (Some no_tab) (Inr [0]) []) ''requestCameraPermission'' \<and>
   requestPermissionViaContentScript (extension_env (Some no_tab) (Inr [0]) []) = Inr False \<and>
   relay_fails (extension_env (Some unreachable_tab) (Inr [0]) []) ''checkCameraPermission'' \<and>
   checkPermissionStatus (extension_env (Some unreachable_tab) (Inr [0]) []) = Inr False \<and>
   relay_fails (extension_env (Some unreachable_tab) (Inr [0]) []) ''requestCameraPermission'' \<and>
   requestPermissionViaContentScript (extension_env (Some unreachable_tab) (Inr [0]) []) = Inr False \<and>
   \<not> isExtension (page_env (Inr [0]) []) \<and>
   checkPermissionStatus (page_env (Inr [0]) []) = Inr False"
proof -
  have h1: "relay_fails (extension_env None (Inr [0]) []) ''checkCameraPermission''"
    by (simp add: relay_fails_def extension_env_def chrome_tabs_of_def)
  have h2: "relay_fails (extension_env (Some no_tab) (Inr [0]) []) ''requestCameraPermission''"
    by (simp add: relay_fails_def extension_env_def chrome_tabs_of_def no_tab_def)
  have h3: "relay_fails (extension_env (Some unreachable_tab) (Inr [0]) []) act" for act
    by (simp add: relay_fails_def extension_env_def chrome_tabs_of_def unreachable_tab_def)
  have h4: "\<not> isExtension (page_env (Inr [0]) [])"
    by (simp add: isExtension_def page_env_def)
  from relay_failures_absorbed [of "extension_env None (Inr [0]) []"]
    relay_failures_absorbed [of "extension_env (Some no_tab) (Inr [0]) []"]
    relay_failures_absorbed [of "extension_env (Some unreachable_tab) (Inr [0]) []"]
    relay_failures_absorbed [of "page_env (Inr [0]) []"]
    h1 h2 h3 h4
  show ?thesis
    by simp
qed

end
